theory Spec2Isabelle
  imports Main
begin

section \<open>Values shared by the constructs\<close>

text \<open>
  The constructs of the repository declare resources: a constructor call creates a
  descriptor, later calls on the object add to it. The embedding passes the descriptors
  along explicitly. Numbers of the configuration (ports, capacities, counts, seconds)
  are natural numbers, texts are strings, an optional property \<open>p?: T\<close> is a \<open>T option\<close>.
\<close>

definition or_else :: "string option \<Rightarrow> string \<Rightarrow> string" where
  \<comment> \<open>\<open>a || d\<close> on an optional string: absent and empty are both falsy.\<close>
  "or_else a d = (case a of None \<Rightarrow> d | Some s \<Rightarrow> if s = [] then d else s)"

definition nullish :: "'a option \<Rightarrow> 'a \<Rightarrow> 'a" where
  \<comment> \<open>\<open>a ?? d\<close>: only an absent value takes the default.\<close>
  "nullish a d = (case a of None \<Rightarrow> d | Some v \<Rightarrow> v)"

datatype SubnetType = PUBLIC | PRIVATE_WITH_EGRESS | PRIVATE_ISOLATED

section \<open>Network component\<close>

record VpcConstructProps =
  cidr :: string
  maxAzs :: nat
  natGatewaysCount :: nat
  subnetCidrMask :: nat
  enableFlowLogs :: bool
  flowLogsRetentionDays :: nat
  publicSubnetName :: string
  privateSubnetName :: string
  flowLogsTrafficType :: string
  flowLogsRemovalPolicy :: string
  vpcName :: "string option"
  flowLogsGroupName :: "string option"
  flowLogName :: "string option"

record Subnet =
  subnet_tier :: SubnetType
  subnet_zone :: nat
  subnet_group :: "string option"
  subnet_mask :: nat

record FlowLog =
  flow_id :: string
  flow_group :: string
  flow_trafficType :: string
  flow_retentionDays :: nat
  flow_removalPolicy :: string

record Vpc =
  vpc_id :: string
  vpc_cidr :: string
  vpc_zones :: "nat list"
  vpc_subnets :: "Subnet list"
  vpc_natGateways :: "nat list"
  vpc_flowLogs :: "FlowLog list"

definition tier_subnets :: "VpcConstructProps \<Rightarrow> nat list \<Rightarrow> SubnetType \<Rightarrow> string option \<Rightarrow> Subnet list" where
  "tier_subnets props zones t g =
     map (\<lambda>z. \<lparr>subnet_tier = t, subnet_zone = z, subnet_group = g,
               subnet_mask = subnetCidrMask props\<rparr>) zones"

text \<open>
  Modelled from the spec: \<open>VpcConstruct\<close> (lib/constructs/networking/vpc-construct.ts) is
  not among the sources; only its call in the stack is. Its properties are the ones the
  stack passes. Following the spec's data model, the network has an address block, the
  zones in use (numbered from 0, \<open>maxAzs\<close> of them), and three subnet-tier groups (public,
  private-with-egress, isolated), each replicated per zone. A NAT egress point sits in a
  zone; \<open>natGatewaysCount\<close>, which the stack passes next to \<open>maxAzs\<close>, says in how many
  of the zones. The stack passes a name for the public and the private group only.
\<close>

definition VpcConstruct :: "VpcConstructProps \<Rightarrow> Vpc" where
  "VpcConstruct props =
     (let zones = [0 ..< maxAzs props] in
      \<lparr>vpc_id = or_else (vpcName props) ''Vpc'',
       vpc_cidr = cidr props,
       vpc_zones = zones,
       vpc_subnets =
          tier_subnets props zones PUBLIC (Some (publicSubnetName props))
          @ tier_subnets props zones PRIVATE_WITH_EGRESS (Some (privateSubnetName props))
          @ tier_subnets props zones PRIVATE_ISOLATED None,
       vpc_natGateways = take (natGatewaysCount props) zones,
       vpc_flowLogs =
          (if enableFlowLogs props
           then [\<lparr>flow_id = or_else (flowLogName props) ''VpcFlowLog'',
                  flow_group = or_else (flowLogsGroupName props) ''VpcFlowLogsGroup'',
                  flow_trafficType = flowLogsTrafficType props,
                  flow_retentionDays = flowLogsRetentionDays props,
                  flow_removalPolicy = flowLogsRemovalPolicy props\<rparr>]
           else [])\<rparr>)"

text \<open>
  Most constructs are handed the network object as their property \<open>vpc\<close>, and several
  one of the security groups as \<open>securityGroup\<close>. The property records below extend these
  two, so that the properties keep the names they have in the source.
\<close>

record InVpcProps =
  vpc :: Vpc

section \<open>Security groups (lib/constructs/networking/security-group-construct.ts)\<close>

text \<open>
  A security group object is referred to by other groups' rules. The four objects the
  construct creates are its four fields; a reference to one of them is the tag of the
  field. A rule is what \<open>addIngressRule\<close> and \<open>addEgressRule\<close> are called with: a peer, a
  port and a description. The model records the rules as the construct declares them,
  next to the \<open>allowAllOutbound\<close> flag the group was created with; what the library
  makes of the declarations when the template is synthesized is not code of the
  repository and not part of the model.
\<close>

datatype tier = Alb | WebTier | AppTier | Database

datatype Peer = Ipv4 string | AnyIpv4 | GroupPeer tier

datatype Port = Tcp nat

record InGroupProps = InVpcProps +
  securityGroup :: tier

record Rule =
  rule_peer :: Peer
  rule_port :: Port
  rule_description :: string

record SecurityGroup =
  sg_id :: string
  sg_vpc :: Vpc
  sg_description :: string
  allowAllOutbound :: bool
  ingressRules :: "Rule list"
  egressRules :: "Rule list"

definition new_SecurityGroup :: "string \<Rightarrow> Vpc \<Rightarrow> string \<Rightarrow> bool \<Rightarrow> SecurityGroup" where
  "new_SecurityGroup i v d out =
     \<lparr>sg_id = i, sg_vpc = v, sg_description = d, allowAllOutbound = out,
      ingressRules = [], egressRules = []\<rparr>"

definition addIngressRule :: "Peer \<Rightarrow> Port \<Rightarrow> string \<Rightarrow> SecurityGroup \<Rightarrow> SecurityGroup" where
  "addIngressRule p c d g =
     g\<lparr>ingressRules := ingressRules g @ [\<lparr>rule_peer = p, rule_port = c, rule_description = d\<rparr>]\<rparr>"

definition addEgressRule :: "Peer \<Rightarrow> Port \<Rightarrow> string \<Rightarrow> SecurityGroup \<Rightarrow> SecurityGroup" where
  "addEgressRule p c d g =
     g\<lparr>egressRules := egressRules g @ [\<lparr>rule_peer = p, rule_port = c, rule_description = d\<rparr>]\<rparr>"

record SecurityGroupsConstructProps = InVpcProps +
  allowHttpFrom :: string
  httpPort :: nat
  httpsPort :: nat
  appTierPort :: nat
  dbPort :: nat
  albAllowAllOutbound :: "bool option"
  webTierAllowAllOutbound :: "bool option"
  appTierAllowAllOutbound :: "bool option"
  dbAllowAllOutbound :: "bool option"
  allowPackageDownloads :: "bool option"
  albSecurityGroupName :: "string option"
  webTierSecurityGroupName :: "string option"
  appTierSecurityGroupName :: "string option"
  databaseSecurityGroupName :: "string option"

record SecurityGroups =
  albSecurityGroup :: SecurityGroup
  webTierSecurityGroup :: SecurityGroup
  appTierSecurityGroup :: SecurityGroup
  dbSecurityGroup :: SecurityGroup

text \<open>
  The constructor, statement by statement. A group that receives rules after its creation
  is passed on under a new name (\<open>alb0\<close>, \<open>alb1\<close>, ...).
\<close>

definition SecurityGroupsConstruct :: "SecurityGroupsConstructProps \<Rightarrow> SecurityGroups" where
  "SecurityGroupsConstruct props =
     (let alb0 = new_SecurityGroup (or_else (albSecurityGroupName props) ''AlbSecurityGroup'')
                   (vpc props) ''Security group for Application Load Balancer''
                   (nullish (albAllowAllOutbound props) False);
          alb1 = addIngressRule (Ipv4 (allowHttpFrom props)) (Tcp (httpPort props))
                   ''Allow HTTP traffic from internet'' alb0;
          web0 = new_SecurityGroup (or_else (webTierSecurityGroupName props) ''WebTierSecurityGroup'')
                   (vpc props) ''Security group for Web Tier instances''
                   (nullish (webTierAllowAllOutbound props) False);
          web1 = addIngressRule (GroupPeer Alb) (Tcp (httpPort props))
                   ''Allow HTTP traffic from ALB only'' web0;
          alb2 = addEgressRule (GroupPeer WebTier) (Tcp (httpPort props))
                   ''Allow outbound to Web Tier instances'' alb1;
          app0 = new_SecurityGroup (or_else (appTierSecurityGroupName props) ''AppTierSecurityGroup'')
                   (vpc props) ''Security group for Application Tier instances''
                   (nullish (appTierAllowAllOutbound props) False);
          app1 = addIngressRule (GroupPeer WebTier) (Tcp (appTierPort props))
                   ''Allow traffic from Web Tier only'' app0;
          web2 = addEgressRule (GroupPeer AppTier) (Tcp (appTierPort props))
                   ''Allow outbound to App Tier instances'' web1;
          db0 = new_SecurityGroup (or_else (databaseSecurityGroupName props) ''DatabaseSecurityGroup'')
                   (vpc props) ''Security group for RDS database''
                   (nullish (dbAllowAllOutbound props) False);
          db1 = addIngressRule (GroupPeer AppTier) (Tcp (dbPort props))
                   ''Allow MySQL/MariaDB traffic from App Tier instances only'' db0;
          app2 = addEgressRule (GroupPeer Database) (Tcp (dbPort props))
                   ''Allow outbound to database'' app1
      in if nullish (allowPackageDownloads props) True
         then
           (let web3 = addEgressRule AnyIpv4 (Tcp (httpPort props))
                         ''Allow HTTP for package downloads'' web2;
                web4 = addEgressRule AnyIpv4 (Tcp (httpsPort props))
                         ''Allow HTTPS for package downloads'' web3;
                app3 = addEgressRule AnyIpv4 (Tcp (httpPort props))
                         ''Allow HTTP for package downloads'' app2;
                app4 = addEgressRule AnyIpv4 (Tcp (httpsPort props))
                         ''Allow HTTPS for package downloads'' app3
            in \<lparr>albSecurityGroup = alb2, webTierSecurityGroup = web4,
                appTierSecurityGroup = app4, dbSecurityGroup = db1\<rparr>)
         else \<lparr>albSecurityGroup = alb2, webTierSecurityGroup = web2,
               appTierSecurityGroup = app2, dbSecurityGroup = db1\<rparr>)"

subsection \<open>Reading the rule set\<close>

definition group_of :: "SecurityGroups \<Rightarrow> tier \<Rightarrow> SecurityGroup" where
  "group_of c t =
     (case t of Alb \<Rightarrow> albSecurityGroup c | WebTier \<Rightarrow> webTierSecurityGroup c
      | AppTier \<Rightarrow> appTierSecurityGroup c | Database \<Rightarrow> dbSecurityGroup c)"

definition tiers :: "tier list" where
  "tiers = [Alb, WebTier, AppTier, Database]"

fun peer_group :: "Peer \<Rightarrow> tier option" where
  "peer_group (GroupPeer t) = Some t"
| "peer_group (Ipv4 a) = None"
| "peer_group AnyIpv4 = None"

definition group_rules :: "tier \<Rightarrow> Rule list \<Rightarrow> (tier \<times> tier \<times> Port) list" where
  \<comment> \<open>the rules of the group \<open>t\<close> whose peer is a group: (owner, peer, port)\<close>
  "group_rules t rs =
     List.map_filter (\<lambda>r. case peer_group (rule_peer r) of None \<Rightarrow> None
                           | Some u \<Rightarrow> Some (t, u, rule_port r)) rs"



definition ingress_peers :: "SecurityGroups \<Rightarrow> (tier \<times> Peer) list" where
  \<comment> \<open>the peer of every ingress rule, with the tier whose group holds the rule\<close>
  "ingress_peers c =
     concat (map (\<lambda>t. map (\<lambda>r. (t, rule_peer r)) (ingressRules (group_of c t))) tiers)"

fun is_address_range :: "Peer \<Rightarrow> bool" where
  "is_address_range (Ipv4 a) = True"
| "is_address_range AnyIpv4 = True"
| "is_address_range (GroupPeer t) = False"

definition package_rules :: "SecurityGroupsConstructProps \<Rightarrow> Rule list" where
  \<comment> \<open>the egress rules of lines 234 to 259, which the web and the app tier both receive\<close>
  "package_rules props =
     (if nullish (allowPackageDownloads props) True
      then [\<lparr>rule_peer = AnyIpv4, rule_port = Tcp (httpPort props),
             rule_description = ''Allow HTTP for package downloads''\<rparr>,
            \<lparr>rule_peer = AnyIpv4, rule_port = Tcp (httpsPort props),
             rule_description = ''Allow HTTPS for package downloads''\<rparr>]
      else [])"

section \<open>Compute groups (lib/constructs/compute/app-tier-asg-construct.ts)\<close>

text \<open>
  The construct reads its boot script from the file system with \<open>fs.readFileSync\<close>, which
  throws when there is no file at the path. The file system is a parameter of the model,
  a map from paths to contents; the exception is the error value.
\<close>

datatype error = FileNotFound string

type_synonym files = "string \<rightharpoonup> string"

definition readFileSync :: "files \<Rightarrow> string \<Rightarrow> error + string" where
  "readFileSync fs p = (case fs p of None \<Rightarrow> Inl (FileNotFound p) | Some text \<Rightarrow> Inr text)"

record BlockDevice =
  bd_deviceName :: string
  bd_volumeSize :: nat
  bd_volumeType :: string
  bd_encrypted :: bool
  bd_deleteOnTermination :: bool
  bd_iops :: nat

record ScalingPolicy =
  sp_id :: string
  targetUtilizationPercent :: nat
  sp_cooldown :: nat

record AutoScalingGroup =
  asg_id :: string
  asg_vpc :: Vpc
  asg_instanceType :: "string \<times> string"
  asg_machineImage :: string
  asg_securityGroup :: tier
  asg_minCapacity :: nat
  asg_maxCapacity :: nat
  asg_desiredCapacity :: nat
  asg_vpcSubnets :: SubnetType
  asg_cooldown :: nat
  asg_requireImdsv2 :: bool
  asg_blockDevices :: "BlockDevice list"
  asg_userData :: "string list"
  asg_healthCheckGracePeriod :: "nat option"
  asg_healthCheckType :: "string option"
  asg_scalingPolicies :: "ScalingPolicy list"
  asg_targetGroups :: "string list"

record AppTierAsgConstructProps = InGroupProps +
  minCapacity :: nat
  maxCapacity :: nat
  desiredCapacity :: nat
  instanceClass :: string
  instanceSize :: string
  machineImage :: string
  healthCheckType :: string
  healthCheckGracePeriod :: nat
  cooldown :: nat
  targetCpuUtilization :: nat
  volumeSize :: nat
  volumeType :: string
  encrypted :: bool
  deleteOnTermination :: bool
  iops :: nat
  deviceName :: string
  requireImdsv2 :: "bool option"
  subnetType :: "string option"
  autoScalingGroupName :: "string option"
  cpuScalingPolicyName :: "string option"
  userDataScriptPath :: "string option"

definition subnetType_of :: "string option \<Rightarrow> SubnetType" where
  \<comment> \<open>the local constant \<open>subnetType\<close> of the constructor (lines 62 to 66)\<close>
  "subnetType_of s =
     (if s = Some ''PUBLIC'' then PUBLIC
      else if s = Some ''PRIVATE_ISOLATED'' then PRIVATE_ISOLATED
      else PRIVATE_WITH_EGRESS)"

definition addUserData :: "string \<Rightarrow> AutoScalingGroup \<Rightarrow> AutoScalingGroup" where
  "addUserData text g = g\<lparr>asg_userData := asg_userData g @ [text]\<rparr>"

definition scaleOnCpuUtilization :: "string \<Rightarrow> nat \<Rightarrow> nat \<Rightarrow> AutoScalingGroup \<Rightarrow> AutoScalingGroup" where
  "scaleOnCpuUtilization i target cool g =
     g\<lparr>asg_scalingPolicies := asg_scalingPolicies g
          @ [\<lparr>sp_id = i, targetUtilizationPercent = target, sp_cooldown = cool\<rparr>]\<rparr>"

definition new_AutoScalingGroup ::
  "string \<Rightarrow> ('a AppTierAsgConstructProps_scheme) \<Rightarrow> AutoScalingGroup" where
  \<comment> \<open>the constructor call of lines 69 to 91, the same for both tiers\<close>
  "new_AutoScalingGroup i props =
     \<lparr>asg_id = i,
      asg_vpc = vpc props,
      asg_instanceType = (instanceClass props, instanceSize props),
      asg_machineImage = machineImage props,
      asg_securityGroup = securityGroup props,
      asg_minCapacity = minCapacity props,
      asg_maxCapacity = maxCapacity props,
      asg_desiredCapacity = desiredCapacity props,
      asg_vpcSubnets = subnetType_of (subnetType props),
      asg_cooldown = cooldown props,
      asg_requireImdsv2 = nullish (requireImdsv2 props) True,
      asg_blockDevices =
        [\<lparr>bd_deviceName = deviceName props, bd_volumeSize = volumeSize props,
          bd_volumeType = volumeType props, bd_encrypted = encrypted props,
          bd_deleteOnTermination = deleteOnTermination props, bd_iops = iops props\<rparr>],
      asg_userData = [],
      asg_healthCheckGracePeriod = None,
      asg_healthCheckType = None,
      asg_scalingPolicies = [],
      asg_targetGroups = []\<rparr>"

definition with_userData ::
  "files \<Rightarrow> string option \<Rightarrow> AutoScalingGroup \<Rightarrow> error + AutoScalingGroup" where
  \<comment> \<open>lines 94 to 97: an absent or empty path is falsy and skips the read\<close>
  "with_userData fs path g =
     (case path of
        None \<Rightarrow> Inr g
      | Some p \<Rightarrow>
          if p = [] then Inr g
          else (case readFileSync fs p of
                  Inl e \<Rightarrow> Inl e
                | Inr userDataScript \<Rightarrow> Inr (addUserData userDataScript g)))"

definition AppTierAsgConstruct :: "files \<Rightarrow> AppTierAsgConstructProps \<Rightarrow> error + AutoScalingGroup" where
  "AppTierAsgConstruct fs props =
     (let asg0 = new_AutoScalingGroup
                   (or_else (autoScalingGroupName props) ''AppTierAutoScalingGroup'') props
      in case with_userData fs (userDataScriptPath props) asg0 of
           Inl e \<Rightarrow> Inl e
         | Inr asg1 \<Rightarrow>
             (let asg2 = asg1\<lparr>asg_healthCheckGracePeriod := Some (healthCheckGracePeriod props),
                              asg_healthCheckType := Some (healthCheckType props)\<rparr>
              in Inr (scaleOnCpuUtilization
                        (or_else (cpuScalingPolicyName props) ''AppTierCpuScaling'')
                        (targetCpuUtilization props) (cooldown props) asg2)))"

record WebTierAsgConstructProps = AppTierAsgConstructProps +
  targetGroup :: string

text \<open>
  Modelled from the spec: \<open>WebTierAsgConstruct\<close>
  (lib/constructs/compute/web-tier-asg-construct.ts) is not among the sources. The spec
  describes one kind of compute group for both tiers (capacity bounds, instance shape,
  boot script, attached security identity, CPU-target scaling policy with cooldown), with
  the load-balancer target attachment for the presentation tier only; the stack passes
  the web tier the properties of the app tier and a target group. The model is the app
  tier's constructor with that attachment and the web tier's default names.
\<close>

definition WebTierAsgConstruct :: "files \<Rightarrow> WebTierAsgConstructProps \<Rightarrow> error + AutoScalingGroup" where
  "WebTierAsgConstruct fs props =
     (let asg0 = new_AutoScalingGroup
                   (or_else (autoScalingGroupName props) ''WebTierAutoScalingGroup'') props
      in case with_userData fs (userDataScriptPath props) asg0 of
           Inl e \<Rightarrow> Inl e
         | Inr asg1 \<Rightarrow>
             (let asg2 = asg1\<lparr>asg_targetGroups := asg_targetGroups asg1 @ [targetGroup props]\<rparr>;
                  asg3 = asg2\<lparr>asg_healthCheckGracePeriod := Some (healthCheckGracePeriod props),
                              asg_healthCheckType := Some (healthCheckType props)\<rparr>
              in Inr (scaleOnCpuUtilization
                        (or_else (cpuScalingPolicyName props) ''WebTierCpuScaling'')
                        (targetCpuUtilization props) (cooldown props) asg3)))"

section \<open>Components whose constructs are not among the sources\<close>

subsection \<open>Subnet-level rule lists\<close>

datatype Direction = Inbound | Outbound

datatype PortRange = AllTraffic | TcpRange nat nat

record AclEntry =
  entry_ruleNumber :: nat
  entry_direction :: Direction
  entry_allow :: bool
  entry_ports :: PortRange

record NetworkAcl =
  acl_id :: string
  acl_entries :: "AclEntry list"

record NetworkAcls =
  publicNetworkAcl :: NetworkAcl
  privateNetworkAcl :: NetworkAcl

record NetworkAclConstructProps = InVpcProps +
  vpcCidr :: string
  acl_httpPort :: nat
  acl_httpsPort :: nat
  acl_dbPort :: nat
  httpInboundRuleNumber :: nat
  enableHttpInbound :: bool
  httpsInboundRuleNumber :: nat
  enableHttpsInbound :: bool
  ephemeralInboundRuleNumber :: nat
  enableEphemeralInbound :: bool
  allOutboundRuleNumber :: nat
  enableAllOutbound :: bool
  privateHttpRuleNumber :: nat
  enablePrivateHttpInbound :: bool
  privateDatabaseRuleNumber :: nat
  enablePrivateDatabaseInbound :: bool
  privateEphemeralRuleNumber :: nat
  enablePrivateEphemeralInbound :: bool
  enablePrivateAllOutbound :: bool
  ephemeralPortStart :: nat
  ephemeralPortEnd :: nat
  publicNetworkAclName :: "string option"
  privateNetworkAclName :: "string option"

definition acl_entry :: "bool \<Rightarrow> nat \<Rightarrow> Direction \<Rightarrow> PortRange \<Rightarrow> AclEntry list" where
  "acl_entry enabled n d r =
     (if enabled
      then [\<lparr>entry_ruleNumber = n, entry_direction = d, entry_allow = True, entry_ports = r\<rparr>]
      else [])"

text \<open>
  Modelled from the spec: \<open>NetworkAclConstruct\<close>
  (lib/constructs/networking/network-acl-construct.ts) is not among the sources. The spec
  describes stateless, ordered rule lists per subnet tier, each rule with a priority
  number, an action, a protocol and port range and a direction. The model gives the
  public and the private list one allow entry for each rule the stack enables, with the
  rule number and ports the stack passes for it; the stack passes one outbound rule
  number, which both outbound entries carry.
\<close>

definition NetworkAclConstruct :: "NetworkAclConstructProps \<Rightarrow> NetworkAcls" where
  "NetworkAclConstruct props =
     \<lparr>publicNetworkAcl =
        \<lparr>acl_id = or_else (publicNetworkAclName props) ''PublicNetworkAcl'',
         acl_entries =
           acl_entry (enableHttpInbound props) (httpInboundRuleNumber props) Inbound
             (TcpRange (acl_httpPort props) (acl_httpPort props))
           @ acl_entry (enableHttpsInbound props) (httpsInboundRuleNumber props) Inbound
               (TcpRange (acl_httpsPort props) (acl_httpsPort props))
           @ acl_entry (enableEphemeralInbound props) (ephemeralInboundRuleNumber props) Inbound
               (TcpRange (ephemeralPortStart props) (ephemeralPortEnd props))
           @ acl_entry (enableAllOutbound props) (allOutboundRuleNumber props) Outbound
               AllTraffic\<rparr>,
      privateNetworkAcl =
        \<lparr>acl_id = or_else (privateNetworkAclName props) ''PrivateNetworkAcl'',
         acl_entries =
           acl_entry (enablePrivateHttpInbound props) (privateHttpRuleNumber props) Inbound
             (TcpRange (acl_httpPort props) (acl_httpPort props))
           @ acl_entry (enablePrivateDatabaseInbound props) (privateDatabaseRuleNumber props)
               Inbound (TcpRange (acl_dbPort props) (acl_dbPort props))
           @ acl_entry (enablePrivateEphemeralInbound props) (privateEphemeralRuleNumber props)
               Inbound (TcpRange (ephemeralPortStart props) (ephemeralPortEnd props))
           @ acl_entry (enablePrivateAllOutbound props) (allOutboundRuleNumber props) Outbound
               AllTraffic\<rparr>\<rparr>"

subsection \<open>Load balancing\<close>

record LoadBalancer =
  lb_id :: string
  lb_vpc :: Vpc
  lb_securityGroup :: tier
  lb_internetFacing :: bool
  lb_deletionProtection :: bool
  lb_idleTimeout :: nat
  lb_http2Enabled :: bool

record TargetGroup =
  tg_id :: string
  tg_port :: nat
  tg_protocol :: string
  tg_targetType :: string
  tg_deregistrationDelay :: nat
  tg_healthCheck :: "(string \<times> string) list"

record Listener =
  ls_id :: string
  ls_port :: nat
  ls_protocol :: string
  ls_targetGroup :: string

record Alb =
  alb_loadBalancer :: LoadBalancer
  alb_targetGroup :: TargetGroup
  alb_listener :: Listener

record AlbConstructProps = InGroupProps +
  internetFacing :: bool
  alb_deletionProtection :: bool
  idleTimeout :: nat
  http2Enabled :: bool
  targetGroupPort :: nat
  targetGroupProtocol :: string
  targetType :: string
  listenerPort :: nat
  listenerProtocol :: string
  deregistrationDelay :: nat
  healthCheck :: "(string \<times> string) list"
  loadBalancerName :: "string option"
  targetGroupName :: "string option"
  listenerName :: "string option"

text \<open>
  Modelled from the spec: \<open>AlbConstruct\<close> (lib/constructs/load-balancing/alb-construct.ts)
  is not among the sources. The spec has it declare a load balancer, a health-checked
  target group and a listener that forwards to that target group; the health-check
  settings are passed through as the stack gives them.
\<close>

definition AlbConstruct :: "AlbConstructProps \<Rightarrow> Alb" where
  "AlbConstruct props =
     (let tg = \<lparr>tg_id = or_else (targetGroupName props) ''WebTierTargetGroup'',
                tg_port = targetGroupPort props,
                tg_protocol = targetGroupProtocol props,
                tg_targetType = targetType props,
                tg_deregistrationDelay = deregistrationDelay props,
                tg_healthCheck = healthCheck props\<rparr>
      in \<lparr>alb_loadBalancer =
            \<lparr>lb_id = or_else (loadBalancerName props) ''ApplicationLoadBalancer'',
             lb_vpc = vpc props,
             lb_securityGroup = securityGroup props,
             lb_internetFacing = internetFacing props,
             lb_deletionProtection = alb_deletionProtection props,
             lb_idleTimeout = idleTimeout props,
             lb_http2Enabled = http2Enabled props\<rparr>,
          alb_targetGroup = tg,
          alb_listener =
            \<lparr>ls_id = or_else (listenerName props) ''HttpListener'',
             ls_port = listenerPort props,
             ls_protocol = listenerProtocol props,
             ls_targetGroup = tg_id tg\<rparr>\<rparr>)"

subsection \<open>Database\<close>

record Secret =
  secret_id :: string
  secret_username :: string
  secret_passwordLength :: nat
  secret_excludePunctuation :: bool
  secret_includeSpace :: bool

record DatabaseInstance =
  db_id :: string
  db_vpc :: Vpc
  db_subnetGroup :: string
  db_subnets :: SubnetType
  db_securityGroup :: tier
  db_engine :: string
  db_engineVersion :: string
  db_instanceType :: "string \<times> string"
  db_allocatedStorage :: nat
  db_maxAllocatedStorage :: nat
  db_multiAz :: bool
  db_databaseName :: string
  db_backupRetention :: nat
  db_preferredBackupWindow :: string
  db_preferredMaintenanceWindow :: string
  db_deletionProtection :: bool
  db_removalPolicy :: string
  db_storageEncrypted :: bool
  db_autoMinorVersionUpgrade :: bool
  db_credentials :: string
  db_cloudWatchLogsExports :: "string list"
  db_cloudWatchLogsRetention :: nat

record Rds =
  rds_database :: DatabaseInstance
  rds_secret :: Secret

record RdsConstructProps = InGroupProps +
  engine :: string
  engineVersion :: string
  rds_instanceClass :: string
  rds_instanceSize :: string
  allocatedStorage :: nat
  maxAllocatedStorage :: nat
  multiAz :: bool
  databaseName :: string
  backupRetention :: nat
  preferredBackupWindow :: string
  preferredMaintenanceWindow :: string
  rds_deletionProtection :: bool
  removalPolicy :: string
  storageEncrypted :: bool
  autoMinorVersionUpgrade :: bool
  credentialsUsername :: string
  credentialsPasswordLength :: nat
  credentialsExcludePunctuation :: bool
  credentialsIncludeSpace :: bool
  cloudWatchLogsExports :: "string list"
  cloudWatchLogsRetention :: nat
  resourceName :: "string option"
  subnetGroupName :: "string option"
  credentialsSecretName :: "string option"

text \<open>
  Modelled from the spec: \<open>RdsConstruct\<close>
  (lib/constructs/database/database-instance-construct.ts) is not among the sources. The
  spec has it declare one managed database in the isolated subnets (engine and version,
  instance shape, storage bounds, replication mode, backup retention, encryption,
  deletion protection) whose generated credentials are kept in a secret store.
\<close>

definition RdsConstruct :: "RdsConstructProps \<Rightarrow> Rds" where
  "RdsConstruct props =
     (let s = \<lparr>secret_id = or_else (credentialsSecretName props) ''DatabaseCredentials'',
               secret_username = credentialsUsername props,
               secret_passwordLength = credentialsPasswordLength props,
               secret_excludePunctuation = credentialsExcludePunctuation props,
               secret_includeSpace = credentialsIncludeSpace props\<rparr>
      in \<lparr>rds_database =
            \<lparr>db_id = or_else (resourceName props) ''Database'',
             db_vpc = vpc props,
             db_subnetGroup = or_else (subnetGroupName props) ''DatabaseSubnetGroup'',
             db_subnets = PRIVATE_ISOLATED,
             db_securityGroup = securityGroup props,
             db_engine = engine props,
             db_engineVersion = engineVersion props,
             db_instanceType = (rds_instanceClass props, rds_instanceSize props),
             db_allocatedStorage = allocatedStorage props,
             db_maxAllocatedStorage = maxAllocatedStorage props,
             db_multiAz = multiAz props,
             db_databaseName = databaseName props,
             db_backupRetention = backupRetention props,
             db_preferredBackupWindow = preferredBackupWindow props,
             db_preferredMaintenanceWindow = preferredMaintenanceWindow props,
             db_deletionProtection = rds_deletionProtection props,
             db_removalPolicy = removalPolicy props,
             db_storageEncrypted = storageEncrypted props,
             db_autoMinorVersionUpgrade = autoMinorVersionUpgrade props,
             db_credentials = secret_id s,
             db_cloudWatchLogsExports = cloudWatchLogsExports props,
             db_cloudWatchLogsRetention = cloudWatchLogsRetention props\<rparr>,
          rds_secret = s\<rparr>)"

subsection \<open>Outputs\<close>

record Output =
  out_description :: string
  out_resource :: string
  out_environment :: string

record OutputsConstructProps = InVpcProps +
  loadBalancer :: LoadBalancer
  webTierAutoScalingGroup :: AutoScalingGroup
  appTierAutoScalingGroup :: AutoScalingGroup
  database :: DatabaseInstance
  environment :: string

text \<open>
  Modelled from the spec: \<open>OutputsConstruct\<close> (lib/constructs/outputs/outputs-construct.ts)
  is not among the sources. The spec lists the exported values: network identifier and
  address block, load-balancer address and identifier, name and identifier of each
  scaling group, database endpoint address and port, and the credential-store reference.
  An output is described by its text, the resource it reads and the environment it is
  exported for.
\<close>

definition OutputsConstruct :: "OutputsConstructProps \<Rightarrow> Output list" where
  "OutputsConstruct props =
     map (\<lambda>(d, r). \<lparr>out_description = d, out_resource = r, out_environment = environment props\<rparr>)
       [(''VPC ID'', vpc_id (vpc props)),
        (''VPC CIDR Block'', vpc_id (vpc props)),
        (''Load Balancer DNS'', lb_id (loadBalancer props)),
        (''Load Balancer ARN'', lb_id (loadBalancer props)),
        (''Application URL'', lb_id (loadBalancer props)),
        (''Web Tier Auto Scaling Group Name'', asg_id (webTierAutoScalingGroup props)),
        (''Web Tier Auto Scaling Group ARN'', asg_id (webTierAutoScalingGroup props)),
        (''Application Tier Auto Scaling Group Name'', asg_id (appTierAutoScalingGroup props)),
        (''Application Tier Auto Scaling Group ARN'', asg_id (appTierAutoScalingGroup props)),
        (''Database Endpoint Address'', db_id (database props)),
        (''Database Endpoint Port'', db_id (database props)),
        (''Database Credentials Secret'', db_credentials (database props))]"

section \<open>The configuration (config/stack-config.ts)\<close>

text \<open>
  The loader is not among the sources. \<open>StackConfig\<close> is the typed value it exposes; the
  records below have the sections and settings the stack reads from it.
  \<open>StackConfig.network.vpc.cidr\<close> is \<open>vc_cidr (net_vpc (cfg_network StackConfig))\<close>: a
  setting carries the prefix of its section, since many settings share their name with
  the property they are passed to.
\<close>

record EnvironmentConfig =
  env_name :: string
  env_isProd :: bool

record SubnetsConfig =
  sn_publicSubnetName :: string
  sn_privateSubnetName :: string

record FlowLogsConfig =
  fl_trafficType :: string
  fl_logGroupRemovalPolicy :: string

record VpcConfig =
  vc_cidr :: string
  vc_maxAzs :: nat
  vc_natGatewaysCount :: nat
  vc_subnetCidrMask :: nat
  vc_enableFlowLogs :: bool
  vc_flowLogsRetentionDays :: nat
  vc_subnets :: SubnetsConfig
  vc_flowLogs :: FlowLogsConfig

record SecurityConfig =
  sec_allowHttpFrom :: string
  sec_httpPort :: nat
  sec_httpsPort :: nat
  sec_appTierPort :: nat
  sec_dbPort :: nat
  sec_albAllowAllOutbound :: "bool option"
  sec_webTierAllowAllOutbound :: "bool option"
  sec_appTierAllowAllOutbound :: "bool option"
  sec_dbAllowAllOutbound :: "bool option"
  sec_allowPackageDownloads :: "bool option"

record AclRulesConfig =
  ar_httpInboundRuleNumber :: nat
  ar_enableHttpInbound :: bool
  ar_httpsInboundRuleNumber :: nat
  ar_enableHttpsInbound :: bool
  ar_ephemeralInboundRuleNumber :: nat
  ar_enableEphemeralInbound :: bool
  ar_allOutboundRuleNumber :: nat
  ar_enableAllOutbound :: bool
  ar_privateHttpRuleNumber :: nat
  ar_enablePrivateHttpInbound :: bool
  ar_privateDatabaseRuleNumber :: nat
  ar_enablePrivateDatabaseInbound :: bool
  ar_privateEphemeralRuleNumber :: nat
  ar_enablePrivateEphemeralInbound :: bool
  ar_enablePrivateAllOutbound :: bool

record EphemeralPortsConfig =
  ep_start :: nat
  ep_end :: nat

record NetworkAclsConfig =
  na_rules :: AclRulesConfig
  na_ephemeralPorts :: EphemeralPortsConfig

record NetworkConfig =
  net_vpc :: VpcConfig
  net_security :: SecurityConfig
  net_networkAcls :: NetworkAclsConfig

record AlbConfig =
  ac_internetFacing :: bool
  ac_deletionProtection :: bool
  ac_idleTimeout :: nat
  ac_http2Enabled :: bool
  ac_targetGroupPort :: nat
  ac_targetGroupProtocol :: string
  ac_targetType :: string
  ac_listenerPort :: nat
  ac_listenerProtocol :: string
  ac_deregistrationDelay :: nat
  ac_healthCheck :: "(string \<times> string) list"

record TierConfig =
  tc_minCapacity :: nat
  tc_maxCapacity :: nat
  tc_desiredCapacity :: nat
  tc_instanceClass :: string
  tc_instanceSize :: string
  tc_machineImage :: string
  tc_healthCheckType :: string
  tc_healthCheckGracePeriod :: nat
  tc_cooldown :: nat
  tc_targetCpuUtilization :: nat
  tc_requireImdsv2 :: "bool option"
  tc_subnetType :: "string option"

record StorageConfig =
  st_volumeSize :: nat
  st_volumeType :: string
  st_encrypted :: bool
  st_deleteOnTermination :: bool
  st_iops :: nat
  st_deviceName :: string

record ComputeConfig =
  comp_alb :: AlbConfig
  comp_webTier :: TierConfig
  comp_appTier :: TierConfig
  comp_storage :: StorageConfig

record CredentialsConfig =
  cr_username :: string
  cr_passwordLength :: nat
  cr_excludePunctuation :: bool
  cr_includeSpace :: bool

record CloudWatchLogsConfig =
  cw_exports :: "string list"
  cw_retention :: nat

record DatabaseConfig =
  dc_engine :: string
  dc_engineVersion :: string
  dc_instanceClass :: string
  dc_instanceSize :: string
  dc_allocatedStorage :: nat
  dc_maxAllocatedStorage :: nat
  dc_multiAz :: bool
  dc_databaseName :: string
  dc_backupRetention :: nat
  dc_preferredBackupWindow :: string
  dc_preferredMaintenanceWindow :: string
  dc_deletionProtection :: bool
  dc_removalPolicy :: string
  dc_storageEncrypted :: bool
  dc_autoMinorVersionUpgrade :: bool
  dc_credentials :: CredentialsConfig
  dc_cloudWatchLogs :: CloudWatchLogsConfig

record ResourceNames =
  rn_vpc :: "string option"
  rn_vpcFlowLogsGroup :: "string option"
  rn_vpcFlowLog :: "string option"
  rn_publicNetworkAcl :: "string option"
  rn_privateNetworkAcl :: "string option"
  rn_albSecurityGroup :: "string option"
  rn_webTierSecurityGroup :: "string option"
  rn_appTierSecurityGroup :: "string option"
  rn_databaseSecurityGroup :: "string option"
  rn_applicationLoadBalancer :: "string option"
  rn_webTierTargetGroup :: "string option"
  rn_httpListener :: "string option"
  rn_webTierAutoScalingGroup :: "string option"
  rn_webTierCpuScalingPolicy :: "string option"
  rn_appTierAutoScalingGroup :: "string option"
  rn_appTierCpuScalingPolicy :: "string option"
  rn_database :: "string option"
  rn_databaseSubnetGroup :: "string option"
  rn_databaseCredentials :: "string option"

record StackConfig =
  cfg_environment :: EnvironmentConfig
  cfg_tags :: "(string \<times> string) list"
  cfg_network :: NetworkConfig
  cfg_compute :: ComputeConfig
  cfg_database :: DatabaseConfig
  cfg_resourceNames :: ResourceNames

section \<open>The stack (lib/stack.ts)\<close>

definition dirname :: string where
  \<comment> \<open>\<open>__dirname\<close>: the directory of stack.ts, from the root of the repository\<close>
  "dirname = ''lib''"

definition path_join :: "string list \<Rightarrow> string" where
  \<comment> \<open>\<open>path.join\<close>: the segments with \<open>/\<close> between them. Node also folds \<open>lib/..\<close> away;
      the model keeps the joined text, and the file system is keyed by it.\<close>
  "path_join segs = (case segs of [] \<Rightarrow> ''.'' | s # ss \<Rightarrow> foldl (\<lambda>p q. p @ ''/'' @ q) s ss)"

definition add_tag :: "string \<Rightarrow> string \<Rightarrow> (string \<times> string) list \<Rightarrow> (string \<times> string) list" where
  \<comment> \<open>\<open>Tags.of(this).add(key, value)\<close>: a later value for a key replaces the earlier one\<close>
  "add_tag k v ts = (if k \<in> fst ` set ts then map (\<lambda>(a, b). if a = k then (a, v) else (a, b)) ts
                     else ts @ [(k, v)])"

definition scriptPath :: "string \<Rightarrow> StackConfig \<Rightarrow> string" where
  \<comment> \<open>the boot script the stack names for a tier (\<open>web-tier\<close> or \<open>app-tier\<close>)\<close>
  "scriptPath t StackConfig =
     path_join [dirname, ''..'', ''scripts'',
                t @ ''-user-data-'' @ env_name (cfg_environment StackConfig) @ ''.sh'']"

record Stack =
  stack_id :: string
  stack_tags :: "(string \<times> string) list"
  stack_vpc :: Vpc
  stack_networkAcls :: NetworkAcls
  stack_securityGroups :: SecurityGroups
  stack_alb :: Alb
  stack_webTierAsg :: AutoScalingGroup
  stack_appTierAsg :: AutoScalingGroup
  stack_rds :: Rds
  stack_secretReaders :: "string list"
  stack_outputs :: "Output list"

definition vpcConstructProps :: "StackConfig \<Rightarrow> VpcConstructProps" where
  "vpcConstructProps StackConfig =
     \<lparr>cidr = vc_cidr (net_vpc (cfg_network StackConfig)),
      maxAzs = vc_maxAzs (net_vpc (cfg_network StackConfig)),
      natGatewaysCount = vc_natGatewaysCount (net_vpc (cfg_network StackConfig)),
      subnetCidrMask = vc_subnetCidrMask (net_vpc (cfg_network StackConfig)),
      enableFlowLogs = vc_enableFlowLogs (net_vpc (cfg_network StackConfig)),
      flowLogsRetentionDays = vc_flowLogsRetentionDays (net_vpc (cfg_network StackConfig)),
      publicSubnetName = sn_publicSubnetName (vc_subnets (net_vpc (cfg_network StackConfig))),
      privateSubnetName = sn_privateSubnetName (vc_subnets (net_vpc (cfg_network StackConfig))),
      flowLogsTrafficType = fl_trafficType (vc_flowLogs (net_vpc (cfg_network StackConfig))),
      flowLogsRemovalPolicy =
        fl_logGroupRemovalPolicy (vc_flowLogs (net_vpc (cfg_network StackConfig))),
      vpcName = rn_vpc (cfg_resourceNames StackConfig),
      flowLogsGroupName = rn_vpcFlowLogsGroup (cfg_resourceNames StackConfig),
      flowLogName = rn_vpcFlowLog (cfg_resourceNames StackConfig)\<rparr>"

definition networkAclConstructProps :: "StackConfig \<Rightarrow> Vpc \<Rightarrow> NetworkAclConstructProps" where
  "networkAclConstructProps StackConfig v =
     (let rules = na_rules (net_networkAcls (cfg_network StackConfig)) in
      \<lparr>vpc = v,
       vpcCidr = vc_cidr (net_vpc (cfg_network StackConfig)),
       acl_httpPort = sec_httpPort (net_security (cfg_network StackConfig)),
       acl_httpsPort = sec_httpsPort (net_security (cfg_network StackConfig)),
       acl_dbPort = sec_dbPort (net_security (cfg_network StackConfig)),
       httpInboundRuleNumber = ar_httpInboundRuleNumber rules,
       enableHttpInbound = ar_enableHttpInbound rules,
       httpsInboundRuleNumber = ar_httpsInboundRuleNumber rules,
       enableHttpsInbound = ar_enableHttpsInbound rules,
       ephemeralInboundRuleNumber = ar_ephemeralInboundRuleNumber rules,
       enableEphemeralInbound = ar_enableEphemeralInbound rules,
       allOutboundRuleNumber = ar_allOutboundRuleNumber rules,
       enableAllOutbound = ar_enableAllOutbound rules,
       privateHttpRuleNumber = ar_privateHttpRuleNumber rules,
       enablePrivateHttpInbound = ar_enablePrivateHttpInbound rules,
       privateDatabaseRuleNumber = ar_privateDatabaseRuleNumber rules,
       enablePrivateDatabaseInbound = ar_enablePrivateDatabaseInbound rules,
       privateEphemeralRuleNumber = ar_privateEphemeralRuleNumber rules,
       enablePrivateEphemeralInbound = ar_enablePrivateEphemeralInbound rules,
       enablePrivateAllOutbound = ar_enablePrivateAllOutbound rules,
       ephemeralPortStart = ep_start (na_ephemeralPorts (net_networkAcls (cfg_network StackConfig))),
       ephemeralPortEnd = ep_end (na_ephemeralPorts (net_networkAcls (cfg_network StackConfig))),
       publicNetworkAclName = rn_publicNetworkAcl (cfg_resourceNames StackConfig),
       privateNetworkAclName = rn_privateNetworkAcl (cfg_resourceNames StackConfig)\<rparr>)"

definition securityGroupsConstructProps :: "StackConfig \<Rightarrow> Vpc \<Rightarrow> SecurityGroupsConstructProps" where
  "securityGroupsConstructProps StackConfig v =
     (let security = net_security (cfg_network StackConfig) in
      \<lparr>vpc = v,
       allowHttpFrom = sec_allowHttpFrom security,
       httpPort = sec_httpPort security,
       httpsPort = sec_httpsPort security,
       appTierPort = sec_appTierPort security,
       dbPort = sec_dbPort security,
       albAllowAllOutbound = sec_albAllowAllOutbound security,
       webTierAllowAllOutbound = sec_webTierAllowAllOutbound security,
       appTierAllowAllOutbound = sec_appTierAllowAllOutbound security,
       dbAllowAllOutbound = sec_dbAllowAllOutbound security,
       allowPackageDownloads = sec_allowPackageDownloads security,
       albSecurityGroupName = rn_albSecurityGroup (cfg_resourceNames StackConfig),
       webTierSecurityGroupName = rn_webTierSecurityGroup (cfg_resourceNames StackConfig),
       appTierSecurityGroupName = rn_appTierSecurityGroup (cfg_resourceNames StackConfig),
       databaseSecurityGroupName = rn_databaseSecurityGroup (cfg_resourceNames StackConfig)\<rparr>)"

definition albConstructProps :: "StackConfig \<Rightarrow> Vpc \<Rightarrow> AlbConstructProps" where
  "albConstructProps StackConfig v =
     (let alb = comp_alb (cfg_compute StackConfig) in
      \<lparr>vpc = v,
       securityGroup = Alb,
       internetFacing = ac_internetFacing alb,
       alb_deletionProtection = ac_deletionProtection alb,
       idleTimeout = ac_idleTimeout alb,
       http2Enabled = ac_http2Enabled alb,
       targetGroupPort = ac_targetGroupPort alb,
       targetGroupProtocol = ac_targetGroupProtocol alb,
       targetType = ac_targetType alb,
       listenerPort = ac_listenerPort alb,
       listenerProtocol = ac_listenerProtocol alb,
       deregistrationDelay = ac_deregistrationDelay alb,
       healthCheck = ac_healthCheck alb,
       loadBalancerName = rn_applicationLoadBalancer (cfg_resourceNames StackConfig),
       targetGroupName = rn_webTierTargetGroup (cfg_resourceNames StackConfig),
       listenerName = rn_httpListener (cfg_resourceNames StackConfig)\<rparr>)"

definition webTierAsgConstructProps ::
  "StackConfig \<Rightarrow> Vpc \<Rightarrow> TargetGroup \<Rightarrow> WebTierAsgConstructProps" where
  "webTierAsgConstructProps StackConfig v tg =
     (let webTier = comp_webTier (cfg_compute StackConfig);
          storage = comp_storage (cfg_compute StackConfig);
          environment = env_name (cfg_environment StackConfig) in
      \<lparr>vpc = v,
       securityGroup = WebTier,
       minCapacity = tc_minCapacity webTier,
       maxCapacity = tc_maxCapacity webTier,
       desiredCapacity = tc_desiredCapacity webTier,
       instanceClass = tc_instanceClass webTier,
       instanceSize = tc_instanceSize webTier,
       machineImage = tc_machineImage webTier,
       healthCheckType = tc_healthCheckType webTier,
       healthCheckGracePeriod = tc_healthCheckGracePeriod webTier,
       cooldown = tc_cooldown webTier,
       targetCpuUtilization = tc_targetCpuUtilization webTier,
       volumeSize = st_volumeSize storage,
       volumeType = st_volumeType storage,
       encrypted = st_encrypted storage,
       deleteOnTermination = st_deleteOnTermination storage,
       iops = st_iops storage,
       deviceName = st_deviceName storage,
       requireImdsv2 = tc_requireImdsv2 webTier,
       subnetType = tc_subnetType webTier,
       autoScalingGroupName = rn_webTierAutoScalingGroup (cfg_resourceNames StackConfig),
       cpuScalingPolicyName = rn_webTierCpuScalingPolicy (cfg_resourceNames StackConfig),
       userDataScriptPath =
         Some (path_join [dirname, ''..'', ''scripts'',
                          ''web-tier-user-data-'' @ environment @ ''.sh'']),
       targetGroup = tg_id tg\<rparr>)"

definition appTierAsgConstructProps :: "StackConfig \<Rightarrow> Vpc \<Rightarrow> AppTierAsgConstructProps" where
  "appTierAsgConstructProps StackConfig v =
     (let appTier = comp_appTier (cfg_compute StackConfig);
          storage = comp_storage (cfg_compute StackConfig);
          environment = env_name (cfg_environment StackConfig) in
      \<lparr>vpc = v,
       securityGroup = AppTier,
       minCapacity = tc_minCapacity appTier,
       maxCapacity = tc_maxCapacity appTier,
       desiredCapacity = tc_desiredCapacity appTier,
       instanceClass = tc_instanceClass appTier,
       instanceSize = tc_instanceSize appTier,
       machineImage = tc_machineImage appTier,
       healthCheckType = tc_healthCheckType appTier,
       healthCheckGracePeriod = tc_healthCheckGracePeriod appTier,
       cooldown = tc_cooldown appTier,
       targetCpuUtilization = tc_targetCpuUtilization appTier,
       volumeSize = st_volumeSize storage,
       volumeType = st_volumeType storage,
       encrypted = st_encrypted storage,
       deleteOnTermination = st_deleteOnTermination storage,
       iops = st_iops storage,
       deviceName = st_deviceName storage,
       requireImdsv2 = tc_requireImdsv2 appTier,
       subnetType = tc_subnetType appTier,
       autoScalingGroupName = rn_appTierAutoScalingGroup (cfg_resourceNames StackConfig),
       cpuScalingPolicyName = rn_appTierCpuScalingPolicy (cfg_resourceNames StackConfig),
       userDataScriptPath =
         Some (path_join [dirname, ''..'', ''scripts'',
                          ''app-tier-user-data-'' @ environment @ ''.sh''])\<rparr>)"

definition rdsConstructProps :: "StackConfig \<Rightarrow> Vpc \<Rightarrow> RdsConstructProps" where
  "rdsConstructProps StackConfig v =
     (let db = cfg_database StackConfig in
      \<lparr>vpc = v,
       securityGroup = Database,
       engine = dc_engine db,
       engineVersion = dc_engineVersion db,
       rds_instanceClass = dc_instanceClass db,
       rds_instanceSize = dc_instanceSize db,
       allocatedStorage = dc_allocatedStorage db,
       maxAllocatedStorage = dc_maxAllocatedStorage db,
       multiAz = dc_multiAz db,
       databaseName = dc_databaseName db,
       backupRetention = dc_backupRetention db,
       preferredBackupWindow = dc_preferredBackupWindow db,
       preferredMaintenanceWindow = dc_preferredMaintenanceWindow db,
       rds_deletionProtection = dc_deletionProtection db,
       removalPolicy = dc_removalPolicy db,
       storageEncrypted = dc_storageEncrypted db,
       autoMinorVersionUpgrade = dc_autoMinorVersionUpgrade db,
       credentialsUsername = cr_username (dc_credentials db),
       credentialsPasswordLength = cr_passwordLength (dc_credentials db),
       credentialsExcludePunctuation = cr_excludePunctuation (dc_credentials db),
       credentialsIncludeSpace = cr_includeSpace (dc_credentials db),
       cloudWatchLogsExports = cw_exports (dc_cloudWatchLogs db),
       cloudWatchLogsRetention = cw_retention (dc_cloudWatchLogs db),
       resourceName = rn_database (cfg_resourceNames StackConfig),
       subnetGroupName = rn_databaseSubnetGroup (cfg_resourceNames StackConfig),
       credentialsSecretName = rn_databaseCredentials (cfg_resourceNames StackConfig)\<rparr>)"

text \<open>
  The constructor of the stack. The configuration it imports, the file system and the
  stack's own id are its inputs (the optional \<open>props\<close> go to the library only). The
  constructs are created in the order of the source, and the first error ends the
  assembly. The security groups are handed on by reference: the load balancer, the
  compute groups and the database name their group, and the groups themselves stay in
  \<open>stack_securityGroups\<close>.
\<close>

definition HighlyAvailableStack :: "files \<Rightarrow> StackConfig \<Rightarrow> string \<Rightarrow> error + Stack" where
  "HighlyAvailableStack fs StackConfig sid =
     (let environment = env_name (cfg_environment StackConfig);
          tags = add_tag ''Environment'' environment
                   (foldl (\<lambda>ts (key, value). add_tag key value ts) [] (cfg_tags StackConfig));
          vpcConstruct = VpcConstruct (vpcConstructProps StackConfig);
          networkAclConstruct =
            NetworkAclConstruct (networkAclConstructProps StackConfig vpcConstruct);
          securityGroupsConstruct =
            SecurityGroupsConstruct (securityGroupsConstructProps StackConfig vpcConstruct);
          albConstruct = AlbConstruct (albConstructProps StackConfig vpcConstruct)
      in case WebTierAsgConstruct fs
                (webTierAsgConstructProps StackConfig vpcConstruct (alb_targetGroup albConstruct)) of
           Inl e \<Rightarrow> Inl e
         | Inr webTierAsgConstruct \<Rightarrow>
             (case AppTierAsgConstruct fs (appTierAsgConstructProps StackConfig vpcConstruct) of
                Inl e \<Rightarrow> Inl e
              | Inr appTierAsgConstruct \<Rightarrow>
                  (let rdsConstruct = RdsConstruct (rdsConstructProps StackConfig vpcConstruct);
                       readers = [asg_id appTierAsgConstruct];
                       outputsConstruct = OutputsConstruct
                         \<lparr>vpc = vpcConstruct,
                          loadBalancer = alb_loadBalancer albConstruct,
                          webTierAutoScalingGroup = webTierAsgConstruct,
                          appTierAutoScalingGroup = appTierAsgConstruct,
                          database = rds_database rdsConstruct,
                          environment = environment\<rparr>
                   in Inr \<lparr>stack_id = sid,
                           stack_tags = tags,
                           stack_vpc = vpcConstruct,
                           stack_networkAcls = networkAclConstruct,
                           stack_securityGroups = securityGroupsConstruct,
                           stack_alb = albConstruct,
                           stack_webTierAsg = webTierAsgConstruct,
                           stack_appTierAsg = appTierAsgConstruct,
                           stack_rds = rdsConstruct,
                           stack_secretReaders = readers,
                           stack_outputs = outputsConstruct\<rparr>)))"

section \<open>The resources of an assembled stack\<close>







section \<open>A configuration to run the model on\<close>

text \<open>
  The settings of the development environment as the tests and the README give them
  (two zones, two NAT gateways, ports 80, 443, 8080 and 3306, capacities 2 to 6 with two
  instances desired, a CPU target of 70 percent), and a file system holding the two boot
  scripts of that environment.
\<close>

definition dev_tier :: "string \<Rightarrow> TierConfig" where
  "dev_tier check =
     \<lparr>tc_minCapacity = 2, tc_maxCapacity = 6, tc_desiredCapacity = 2,
      tc_instanceClass = ''T2'', tc_instanceSize = ''MICRO'',
      tc_machineImage = ''AmazonLinux2023'', tc_healthCheckType = check,
      tc_healthCheckGracePeriod = 300, tc_cooldown = 300, tc_targetCpuUtilization = 70,
      tc_requireImdsv2 = Some True, tc_subnetType = Some ''PRIVATE_WITH_EGRESS''\<rparr>"

definition dev_config :: StackConfig where
  "dev_config =
     \<lparr>cfg_environment = \<lparr>env_name = ''dev'', env_isProd = False\<rparr>,
      cfg_tags = [(''Project'', ''WebApp''), (''ManagedBy'', ''CDK'')],
      cfg_network =
        \<lparr>net_vpc =
           \<lparr>vc_cidr = ''10.0.0.0/16'', vc_maxAzs = 2, vc_natGatewaysCount = 2,
            vc_subnetCidrMask = 24, vc_enableFlowLogs = True, vc_flowLogsRetentionDays = 7,
            vc_subnets = \<lparr>sn_publicSubnetName = ''Public'', sn_privateSubnetName = ''Private''\<rparr>,
            vc_flowLogs = \<lparr>fl_trafficType = ''ALL'', fl_logGroupRemovalPolicy = ''DESTROY''\<rparr>\<rparr>,
         net_security =
           \<lparr>sec_allowHttpFrom = ''0.0.0.0/0'', sec_httpPort = 80, sec_httpsPort = 443,
            sec_appTierPort = 8080, sec_dbPort = 3306,
            sec_albAllowAllOutbound = Some False, sec_webTierAllowAllOutbound = Some False,
            sec_appTierAllowAllOutbound = Some False, sec_dbAllowAllOutbound = None,
            sec_allowPackageDownloads = None\<rparr>,
         net_networkAcls =
           \<lparr>na_rules =
              \<lparr>ar_httpInboundRuleNumber = 100, ar_enableHttpInbound = True,
               ar_httpsInboundRuleNumber = 110, ar_enableHttpsInbound = True,
               ar_ephemeralInboundRuleNumber = 120, ar_enableEphemeralInbound = True,
               ar_allOutboundRuleNumber = 100, ar_enableAllOutbound = True,
               ar_privateHttpRuleNumber = 100, ar_enablePrivateHttpInbound = True,
               ar_privateDatabaseRuleNumber = 110, ar_enablePrivateDatabaseInbound = True,
               ar_privateEphemeralRuleNumber = 120, ar_enablePrivateEphemeralInbound = True,
               ar_enablePrivateAllOutbound = True\<rparr>,
            na_ephemeralPorts = \<lparr>ep_start = 1024, ep_end = 65535\<rparr>\<rparr>\<rparr>,
      cfg_compute =
        \<lparr>comp_alb =
           \<lparr>ac_internetFacing = True, ac_deletionProtection = False, ac_idleTimeout = 60,
            ac_http2Enabled = True, ac_targetGroupPort = 80, ac_targetGroupProtocol = ''HTTP'',
            ac_targetType = ''instance'', ac_listenerPort = 80, ac_listenerProtocol = ''HTTP'',
            ac_deregistrationDelay = 30, ac_healthCheck = [(''path'', ''/health'')]\<rparr>,
         comp_webTier = dev_tier ''ELB'',
         comp_appTier = dev_tier ''EC2'',
         comp_storage =
           \<lparr>st_volumeSize = 20, st_volumeType = ''GP3'', st_encrypted = True,
            st_deleteOnTermination = True, st_iops = 3000, st_deviceName = ''/dev/xvda''\<rparr>\<rparr>,
      cfg_database =
        \<lparr>dc_engine = ''mysql'', dc_engineVersion = ''8.0.35'',
         dc_instanceClass = ''T3'', dc_instanceSize = ''MICRO'',
         dc_allocatedStorage = 20, dc_maxAllocatedStorage = 100, dc_multiAz = True,
         dc_databaseName = ''webapp'', dc_backupRetention = 7,
         dc_preferredBackupWindow = ''03:00-04:00'',
         dc_preferredMaintenanceWindow = ''sun:04:00-sun:05:00'',
         dc_deletionProtection = False, dc_removalPolicy = ''DESTROY'',
         dc_storageEncrypted = True, dc_autoMinorVersionUpgrade = True,
         dc_credentials =
           \<lparr>cr_username = ''admin'', cr_passwordLength = 32,
            cr_excludePunctuation = True, cr_includeSpace = False\<rparr>,
         dc_cloudWatchLogs = \<lparr>cw_exports = [''error''], cw_retention = 7\<rparr>\<rparr>,
      cfg_resourceNames =
        \<lparr>rn_vpc = Some ''Vpc'', rn_vpcFlowLogsGroup = None, rn_vpcFlowLog = None,
         rn_publicNetworkAcl = None, rn_privateNetworkAcl = None,
         rn_albSecurityGroup = None, rn_webTierSecurityGroup = None,
         rn_appTierSecurityGroup = None, rn_databaseSecurityGroup = None,
         rn_applicationLoadBalancer = None, rn_webTierTargetGroup = None,
         rn_httpListener = None, rn_webTierAutoScalingGroup = None,
         rn_webTierCpuScalingPolicy = None, rn_appTierAutoScalingGroup = None,
         rn_appTierCpuScalingPolicy = None, rn_database = None,
         rn_databaseSubnetGroup = None, rn_databaseCredentials = None\<rparr>\<rparr>"

definition dev_files :: files where
  "dev_files =
     [''lib/../scripts/web-tier-user-data-dev.sh'' \<mapsto> ''#!/bin/bash'',
      ''lib/../scripts/app-tier-user-data-dev.sh'' \<mapsto> ''#!/bin/bash'']"

definition dev_vpc :: Vpc where
  "dev_vpc = VpcConstruct (vpcConstructProps dev_config)"



definition stack_name :: string where
  "stack_name = ''WebApp-Dev-MultiAZ-3TierInfra''"

section \<open>Properties of the security groups\<close>

lemma SecurityGroupsConstruct_alb:
  "albSecurityGroup (SecurityGroupsConstruct props) =
     \<lparr>sg_id = or_else (albSecurityGroupName props) ''AlbSecurityGroup'',
      sg_vpc = vpc props,
      sg_description = ''Security group for Application Load Balancer'',
      allowAllOutbound = nullish (albAllowAllOutbound props) False,
      ingressRules = [\<lparr>rule_peer = Ipv4 (allowHttpFrom props), rule_port = Tcp (httpPort props),
                       rule_description = ''Allow HTTP traffic from internet''\<rparr>],
      egressRules = [\<lparr>rule_peer = GroupPeer WebTier, rule_port = Tcp (httpPort props),
                      rule_description = ''Allow outbound to Web Tier instances''\<rparr>]\<rparr>"
  by (simp add: SecurityGroupsConstruct_def Let_def new_SecurityGroup_def
      addIngressRule_def addEgressRule_def)

lemma SecurityGroupsConstruct_db:
  "dbSecurityGroup (SecurityGroupsConstruct props) =
     \<lparr>sg_id = or_else (databaseSecurityGroupName props) ''DatabaseSecurityGroup'',
      sg_vpc = vpc props,
      sg_description = ''Security group for RDS database'',
      allowAllOutbound = nullish (dbAllowAllOutbound props) False,
      ingressRules = [\<lparr>rule_peer = GroupPeer AppTier, rule_port = Tcp (dbPort props),
                       rule_description = ''Allow MySQL/MariaDB traffic from App Tier instances only''\<rparr>],
      egressRules = []\<rparr>"
  by (simp add: SecurityGroupsConstruct_def Let_def new_SecurityGroup_def
      addIngressRule_def addEgressRule_def)

lemma SecurityGroupsConstruct_web:
  "webTierSecurityGroup (SecurityGroupsConstruct props) =
     \<lparr>sg_id = or_else (webTierSecurityGroupName props) ''WebTierSecurityGroup'',
      sg_vpc = vpc props,
      sg_description = ''Security group for Web Tier instances'',
      allowAllOutbound = nullish (webTierAllowAllOutbound props) False,
      ingressRules = [\<lparr>rule_peer = GroupPeer Alb, rule_port = Tcp (httpPort props),
                       rule_description = ''Allow HTTP traffic from ALB only''\<rparr>],
      egressRules =
        \<lparr>rule_peer = GroupPeer AppTier, rule_port = Tcp (appTierPort props),
         rule_description = ''Allow outbound to App Tier instances''\<rparr>
        # package_rules props\<rparr>"
  by (simp add: SecurityGroupsConstruct_def Let_def new_SecurityGroup_def
      addIngressRule_def addEgressRule_def package_rules_def)

lemma SecurityGroupsConstruct_app:
  "appTierSecurityGroup (SecurityGroupsConstruct props) =
     \<lparr>sg_id = or_else (appTierSecurityGroupName props) ''AppTierSecurityGroup'',
      sg_vpc = vpc props,
      sg_description = ''Security group for Application Tier instances'',
      allowAllOutbound = nullish (appTierAllowAllOutbound props) False,
      ingressRules = [\<lparr>rule_peer = GroupPeer WebTier, rule_port = Tcp (appTierPort props),
                       rule_description = ''Allow traffic from Web Tier only''\<rparr>],
      egressRules =
        \<lparr>rule_peer = GroupPeer Database, rule_port = Tcp (dbPort props),
         rule_description = ''Allow outbound to database''\<rparr>
        # package_rules props\<rparr>"
  by (simp add: SecurityGroupsConstruct_def Let_def new_SecurityGroup_def
      addIngressRule_def addEgressRule_def package_rules_def)

lemmas SecurityGroupsConstruct_groups =
  SecurityGroupsConstruct_alb SecurityGroupsConstruct_web
  SecurityGroupsConstruct_app SecurityGroupsConstruct_db

lemma group_rules_package [simp]: "group_rules t (package_rules props) = []"
  by (simp add: group_rules_def package_rules_def List.map_filter_simps)


lemma group_rules_Nil [simp]: "group_rules t [] = []"
  by (simp add: group_rules_def List.map_filter_simps)


text \<open>
  C8. In the rule set of every configuration the ingress rule of the ALB's group is the
  only ingress rule whose peer is an address range (the configured \<open>allowHttpFrom\<close>); the
  ingress rule of the web tier, the app tier and the database each names the group of
  the tier before it.
\<close>

theorem only_edge_ingress_from_address_range:
  "ingress_peers (SecurityGroupsConstruct props) =
     [(Alb, Ipv4 (allowHttpFrom props)), (WebTier, GroupPeer Alb),
      (AppTier, GroupPeer WebTier), (Database, GroupPeer AppTier)]
   \<and> filter (\<lambda>(t, p). is_address_range p) (ingress_peers (SecurityGroupsConstruct props)) =
     [(Alb, Ipv4 (allowHttpFrom props))]"
  by (simp add: ingress_peers_def tiers_def group_of_def SecurityGroupsConstruct_groups)

text \<open>
  C9. For every configuration the ALB's group has exactly one ingress rule: TCP on
  \<open>httpPort\<close> from the address range \<open>allowHttpFrom\<close>. The property \<open>httpsPort\<close> gives it
  none: the group is the same whatever \<open>httpsPort\<close> is, and where \<open>httpsPort\<close> differs
  from \<open>httpPort\<close> no ingress rule of the group is on it.
\<close>

theorem alb_single_ingress_rule:
  "ingressRules (albSecurityGroup (SecurityGroupsConstruct props)) =
     [\<lparr>rule_peer = Ipv4 (allowHttpFrom props), rule_port = Tcp (httpPort props),
       rule_description = ''Allow HTTP traffic from internet''\<rparr>]
   \<and> albSecurityGroup (SecurityGroupsConstruct (props\<lparr>httpsPort := q\<rparr>)) =
       albSecurityGroup (SecurityGroupsConstruct props)
   \<and> (httpsPort props \<noteq> httpPort props \<longrightarrow>
        filter (\<lambda>r. rule_port r = Tcp (httpsPort props))
          (ingressRules (albSecurityGroup (SecurityGroupsConstruct props))) = [])"
  by (simp add: SecurityGroupsConstruct_alb)

theorem alb_single_ingress_rule_witness:
  "httpsPort (securityGroupsConstructProps dev_config dev_vpc)
     \<noteq> httpPort (securityGroupsConstructProps dev_config dev_vpc)
   \<and> filter (\<lambda>r. rule_port r = Tcp 443)
        (ingressRules (albSecurityGroup
           (SecurityGroupsConstruct (securityGroupsConstructProps dev_config dev_vpc)))) = []
   \<and> map rule_port (ingressRules (albSecurityGroup
           (SecurityGroupsConstruct (securityGroupsConstructProps dev_config dev_vpc)))) = [Tcp 80]"
proof -
  have ports: "httpsPort (securityGroupsConstructProps dev_config dev_vpc) = 443"
    "httpPort (securityGroupsConstructProps dev_config dev_vpc) = 80"
    by (simp_all add: securityGroupsConstructProps_def dev_config_def Let_def)
  show ?thesis
    using alb_single_ingress_rule [of "securityGroupsConstructProps dev_config dev_vpc" 0]
    by (simp add: ports)
qed


section \<open>Properties of the compute groups\<close>

lemma with_userData_readable:
  "\<forall>p. path = Some p \<and> p \<noteq> [] \<longrightarrow> fs p \<noteq> None \<Longrightarrow>
     \<exists>texts. with_userData fs path g = Inr (g\<lparr>asg_userData := asg_userData g @ texts\<rparr>)"
proof (cases path)
  case None
  then have "with_userData fs path g = Inr (g\<lparr>asg_userData := asg_userData g @ []\<rparr>)"
    by (simp add: with_userData_def)
  then show ?thesis by blast
next
  case (Some p)
  assume readable: "\<forall>p. path = Some p \<and> p \<noteq> [] \<longrightarrow> fs p \<noteq> None"
  show ?thesis
  proof (cases "p = []")
    case True
    with Some have "with_userData fs path g = Inr (g\<lparr>asg_userData := asg_userData g @ []\<rparr>)"
      by (simp add: with_userData_def)
    then show ?thesis by blast
  next
    case False
    with Some readable obtain body where "fs p = Some body" by auto
    with Some False
    have "with_userData fs path g = Inr (g\<lparr>asg_userData := asg_userData g @ [body]\<rparr>)"
      by (simp add: with_userData_def readFileSync_def addUserData_def)
    then show ?thesis by blast
  qed
qed






lemma AppTierAsgConstruct_readable:
  assumes "\<forall>p. userDataScriptPath props = Some p \<and> p \<noteq> [] \<longrightarrow> fs p \<noteq> None"
  shows "\<exists>g. AppTierAsgConstruct fs props = Inr g"
proof -
  from with_userData_readable [OF assms] obtain texts where
    "with_userData fs (userDataScriptPath props)
       (new_AutoScalingGroup
          (or_else (autoScalingGroupName props) ''AppTierAutoScalingGroup'') props) =
     Inr ((new_AutoScalingGroup
          (or_else (autoScalingGroupName props) ''AppTierAutoScalingGroup'') props)
         \<lparr>asg_userData := asg_userData (new_AutoScalingGroup
          (or_else (autoScalingGroupName props) ''AppTierAutoScalingGroup'') props) @ texts\<rparr>)"
    by blast
  then show ?thesis
    by (simp add: AppTierAsgConstruct_def Let_def)
qed

lemma WebTierAsgConstruct_readable:
  assumes "\<forall>p. userDataScriptPath props = Some p \<and> p \<noteq> [] \<longrightarrow> fs p \<noteq> None"
  shows "\<exists>g. WebTierAsgConstruct fs props = Inr g"
proof -
  from with_userData_readable [OF assms] obtain texts where
    "with_userData fs (userDataScriptPath props)
       (new_AutoScalingGroup
          (or_else (autoScalingGroupName props) ''WebTierAutoScalingGroup'') props) =
     Inr ((new_AutoScalingGroup
          (or_else (autoScalingGroupName props) ''WebTierAutoScalingGroup'') props)
         \<lparr>asg_userData := asg_userData (new_AutoScalingGroup
          (or_else (autoScalingGroupName props) ''WebTierAutoScalingGroup'') props) @ texts\<rparr>)"
    by blast
  then show ?thesis
    by (simp add: WebTierAsgConstruct_def Let_def)
qed





section \<open>Properties of the assembled stack\<close>

lemma scriptPath_nonempty: "scriptPath t cfg \<noteq> []"
  by (simp add: scriptPath_def path_join_def dirname_def)

lemma web_userDataScriptPath:
  "userDataScriptPath (webTierAsgConstructProps cfg v tg) = Some (scriptPath ''web-tier'' cfg)"
  by (simp add: webTierAsgConstructProps_def scriptPath_def Let_def)

lemma app_userDataScriptPath:
  "userDataScriptPath (appTierAsgConstructProps cfg v) = Some (scriptPath ''app-tier'' cfg)"
  by (simp add: appTierAsgConstructProps_def scriptPath_def Let_def)

lemma stack_Inr:
  assumes "HighlyAvailableStack fs cfg sid = Inr s"
  shows "stack_vpc s = VpcConstruct (vpcConstructProps cfg)"
    and "stack_securityGroups s =
           SecurityGroupsConstruct (securityGroupsConstructProps cfg (stack_vpc s))"
    and "stack_alb s = AlbConstruct (albConstructProps cfg (stack_vpc s))"
    and "WebTierAsgConstruct fs
           (webTierAsgConstructProps cfg (stack_vpc s) (alb_targetGroup (stack_alb s))) =
         Inr (stack_webTierAsg s)"
    and "AppTierAsgConstruct fs (appTierAsgConstructProps cfg (stack_vpc s)) =
         Inr (stack_appTierAsg s)"
    and "stack_rds s = RdsConstruct (rdsConstructProps cfg (stack_vpc s))"
  using assms
  by (auto simp: HighlyAvailableStack_def Let_def split: sum.splits)

lemma stack_assembles:
  assumes "fs (scriptPath ''web-tier'' cfg) \<noteq> None"
    and "fs (scriptPath ''app-tier'' cfg) \<noteq> None"
  shows "\<exists>s. HighlyAvailableStack fs cfg sid = Inr s"
proof -
  obtain web where
    "WebTierAsgConstruct fs
       (webTierAsgConstructProps cfg (VpcConstruct (vpcConstructProps cfg))
          (alb_targetGroup
             (AlbConstruct (albConstructProps cfg (VpcConstruct (vpcConstructProps cfg)))))) =
     Inr web"
    using WebTierAsgConstruct_readable assms(1) by (fastforce simp: web_userDataScriptPath)
  moreover obtain app where
    "AppTierAsgConstruct fs
       (appTierAsgConstructProps cfg (VpcConstruct (vpcConstructProps cfg))) = Inr app"
    using AppTierAsgConstruct_readable assms(2) by (fastforce simp: app_userDataScriptPath)
  ultimately show ?thesis
    by (simp add: HighlyAvailableStack_def Let_def)
qed

lemma dev_scripts:
  "scriptPath ''web-tier'' dev_config = ''lib/../scripts/web-tier-user-data-dev.sh''"
  "scriptPath ''app-tier'' dev_config = ''lib/../scripts/app-tier-user-data-dev.sh''"
  by (simp_all add: scriptPath_def path_join_def dirname_def dev_config_def)

lemma dev_assembles: "\<exists>s. HighlyAvailableStack dev_files dev_config sid = Inr s"
  by (rule stack_assembles) (simp_all add: dev_scripts dev_files_def)







text \<open>
  C2. For every configuration whose \<open>dbAllowAllOutbound\<close> is false or absent, the
  database's security group in the assembled stack is the group the security-group
  construct created: with \<open>allowAllOutbound\<close> off, with no egress rule, and with one
  ingress rule, from the app tier's group on \<open>dbPort\<close>. No later part of the assembly has
  added a rule to it.
\<close>

theorem database_group_no_egress:
  assumes "sec_dbAllowAllOutbound (net_security (cfg_network cfg)) \<noteq> Some True"
    and "HighlyAvailableStack fs cfg sid = Inr s"
  shows "dbSecurityGroup (stack_securityGroups s) =
           dbSecurityGroup
             (SecurityGroupsConstruct (securityGroupsConstructProps cfg (stack_vpc s)))
       \<and> allowAllOutbound (dbSecurityGroup (stack_securityGroups s)) = False
       \<and> egressRules (dbSecurityGroup (stack_securityGroups s)) = []
       \<and> map (\<lambda>r. (rule_peer r, rule_port r))
           (ingressRules (dbSecurityGroup (stack_securityGroups s))) =
         [(GroupPeer AppTier, Tcp (sec_dbPort (net_security (cfg_network cfg))))]"
proof -
  have flag: "nullish (dbAllowAllOutbound (securityGroupsConstructProps cfg (stack_vpc s))) False
                = False"
    using assms(1)
    by (cases "sec_dbAllowAllOutbound (net_security (cfg_network cfg))")
       (simp_all add: securityGroupsConstructProps_def Let_def nullish_def)
  have port: "dbPort (securityGroupsConstructProps cfg (stack_vpc s)) =
                sec_dbPort (net_security (cfg_network cfg))"
    by (simp add: securityGroupsConstructProps_def Let_def)
  show ?thesis
    by (simp add: stack_Inr(2) [OF assms(2)] SecurityGroupsConstruct_db flag port)
qed

theorem database_group_no_egress_witness:
  "sec_dbAllowAllOutbound (net_security (cfg_network dev_config)) \<noteq> Some True
   \<and> (\<exists>s. HighlyAvailableStack dev_files dev_config stack_name = Inr s
         \<and> allowAllOutbound (dbSecurityGroup (stack_securityGroups s)) = False
         \<and> egressRules (dbSecurityGroup (stack_securityGroups s)) = []
         \<and> map (\<lambda>r. (rule_peer r, rule_port r))
             (ingressRules (dbSecurityGroup (stack_securityGroups s))) =
           [(GroupPeer AppTier, Tcp 3306)])"
proof -
  have flag: "sec_dbAllowAllOutbound (net_security (cfg_network dev_config)) \<noteq> Some True"
    and port: "sec_dbPort (net_security (cfg_network dev_config)) = 3306"
    by (simp_all add: dev_config_def)
  from dev_assembles obtain s where
    s: "HighlyAvailableStack dev_files dev_config stack_name = Inr s" by blast
  from database_group_no_egress [OF flag s] flag s port show ?thesis by auto
qed












end
